theory Spec2Isabelle
  imports Main
begin

section \<open>Strings\<close>

text \<open>
  Python strings are modelled as \<open>string\<close> (character lists). The helpers below are
  the string methods that \<^verbatim>\<open>converter.py\<close> calls on tags, attribute values and
  text: \<^verbatim>\<open>in\<close>, \<^verbatim>\<open>startswith\<close>, \<^verbatim>\<open>split(sep)\<close>, \<^verbatim>\<open>split(sep, 1)\<close>,
  \<^verbatim>\<open>split()\<close> and \<^verbatim>\<open>strip()\<close>. A \<open>char\<close> is a code point below 256; the
  whitespace of \<^verbatim>\<open>str.isspace\<close>, \<^verbatim>\<open>strip()\<close> and \<^verbatim>\<open>split()\<close> in that range is
  U+0009 to U+000D, U+001C to U+001F, the space, U+0085 and U+00A0.
\<close>

fun startswith :: "string \<Rightarrow> string \<Rightarrow> bool" where
  "startswith s [] = True"
| "startswith [] (p # ps) = False"
| "startswith (c # cs) (p # ps) = (c = p \<and> startswith cs ps)"

text \<open>\<open>contains s p\<close> is Python's \<^verbatim>\<open>p in s\<close> on strings.\<close>

fun contains :: "string \<Rightarrow> string \<Rightarrow> bool" where
  "contains [] p = (p = [])"
| "contains (c # cs) p = (startswith (c # cs) p \<or> contains cs p)"

text \<open>\<open>split_on c s\<close> is \<^verbatim>\<open>s.split(c)\<close> for a one-character separator.\<close>

fun split_on :: "char \<Rightarrow> string \<Rightarrow> string list" where
  "split_on c [] = [[]]"
| "split_on c (x # xs) =
     (if x = c then [] # split_on c xs
      else (case split_on c xs of
              [] \<Rightarrow> [[x]]
            | w # ws \<Rightarrow> (x # w) # ws))"

text \<open>\<open>split_first c s\<close> is \<^verbatim>\<open>s.split(c, 1)\<close> when \<open>c\<close> occurs in \<open>s\<close>.\<close>

definition split_first :: "char \<Rightarrow> string \<Rightarrow> string \<times> string" where
  "split_first c s = (takeWhile (\<lambda>x. x \<noteq> c) s, tl (dropWhile (\<lambda>x. x \<noteq> c) s))"

definition is_space :: "char \<Rightarrow> bool" where
  "is_space c \<longleftrightarrow>
     c \<in> {CHR '' '', CHR 0x09, CHR 0x0A, CHR 0x0B, CHR 0x0C, CHR 0x0D,
          CHR 0x1C, CHR 0x1D, CHR 0x1E, CHR 0x1F, CHR 0x85, CHR 0xA0}"

definition strip :: "string \<Rightarrow> string" where
  "strip s = rev (dropWhile is_space (rev (dropWhile is_space s)))"

text \<open>\<open>split_ws [] s\<close> is \<^verbatim>\<open>s.split()\<close>; the first argument is the word being read.\<close>

fun split_ws :: "string \<Rightarrow> string \<Rightarrow> string list" where
  "split_ws cur [] = (if cur = [] then [] else [cur])"
| "split_ws cur (c # cs) =
     (if is_space c then (if cur = [] then split_ws [] cs else cur # split_ws [] cs)
      else split_ws (cur @ [c]) cs)"

section \<open>Tag resolver\<close>

text \<open>\<^verbatim>\<open>XacroToURDFConverter._get_local_tag\<close>\<close>

definition get_local_tag :: "string \<Rightarrow> string" where
  "get_local_tag tag =
     (if CHR ''}'' \<in> set tag then last (split_on CHR ''}'' tag)
      else if CHR '':'' \<in> set tag then last (split_on CHR '':'' tag)
      else tag)"

text \<open>\<^verbatim>\<open>XacroToURDFConverter._is_xacro_element\<close>\<close>

definition is_xacro_element :: "string \<Rightarrow> bool" where
  "is_xacro_element tag =
     (if CHR ''}'' \<in> set tag \<and> contains tag ''xacro'' then True
      else if CHR '':'' \<in> set tag then
        (case split_first CHR '':'' tag of
           (prefix, local) \<Rightarrow>
             local \<in> set [''property'', ''macro'', ''include''] \<or> prefix = ''xacro'')
      else False)"

section \<open>Regular-expression substitution\<close>

text \<open>
  Both \<^verbatim>\<open>_resolve_properties\<close> and \<^verbatim>\<open>_substitute_parameters\<close> call
  \<^verbatim>\<open>re.sub(r"\$\{([^}]+)\}", repl, text)\<close>. The pattern matches at a position
  when the text there starts with \<^verbatim>\<open>${\<close>, is followed by at least one character
  other than \<^verbatim>\<open>}\<close>, and a \<^verbatim>\<open>}\<close> occurs later; group 1 is everything up to
  the first \<^verbatim>\<open>}\<close>. Matches are found left to right and do not overlap.
\<close>

text \<open>\<open>split_at_brace s\<close> cuts \<open>s\<close> at its first \<^verbatim>\<open>}\<close>.\<close>

fun split_at_brace :: "string \<Rightarrow> (string \<times> string) option" where
  "split_at_brace [] = None"
| "split_at_brace (c # cs) =
     (if c = CHR ''}'' then Some ([], cs)
      else (case split_at_brace cs of
              None \<Rightarrow> None
            | Some (name, rest) \<Rightarrow> Some (c # name, rest)))"

text \<open>A match at the head of the text: group 1 and the text after the match.\<close>

fun match_at :: "string \<Rightarrow> (string \<times> string) option" where
  "match_at (a # b # cs) =
     (if a = CHR ''$'' \<and> b = CHR ''{'' then
        (case split_at_brace cs of
           None \<Rightarrow> None
         | Some (name, rest) \<Rightarrow> if name = [] then None else Some (name, rest))
      else None)"
| "match_at _ = None"

text \<open>Group 0 of a match whose group 1 is \<open>name\<close>.\<close>

definition reference :: "string \<Rightarrow> string" where
  "reference name = ''${'' @ name @ ''}''"

lemma split_at_brace_length:
  "split_at_brace s = Some (name, rest) \<Longrightarrow> length rest < length s"
  by (induction s arbitrary: name) (auto split: if_splits option.splits)

lemma match_at_length:
  "match_at s = Some (name, rest) \<Longrightarrow> length rest < length s"
  by (cases s rule: match_at.cases)
     (auto split: if_splits option.splits dest: split_at_brace_length)

text \<open>\<open>re_sub repl text\<close>: \<open>repl\<close> receives group 1 of each match.\<close>

function re_sub :: "(string \<Rightarrow> string) \<Rightarrow> string \<Rightarrow> string" where
  "re_sub repl [] = []"
| "re_sub repl (c # cs) =
     (case match_at (c # cs) of
        Some (name, rest) \<Rightarrow> repl name @ re_sub repl rest
      | None \<Rightarrow> c # re_sub repl cs)"
  by pat_completeness auto
termination
  by (relation "measure (\<lambda>(repl, s). length s)") (auto dest: match_at_length)

section \<open>Variable store\<close>

text \<open>
  The replacement callbacks: \<^verbatim>\<open>d.get(name, match.group(0)) or match.group(0)\<close>.
  A missing key and an empty value both give back the matched text.
\<close>

definition get_or_group0 :: "(string \<rightharpoonup> string) \<Rightarrow> string \<Rightarrow> string" where
  "get_or_group0 d name =
     (case d name of
        None \<Rightarrow> reference name
      | Some v \<Rightarrow> if v = [] then reference name else v)"

text \<open>\<^verbatim>\<open>XacroToURDFConverter._substitute_parameters\<close>\<close>

definition substitute_parameters :: "string \<Rightarrow> (string \<rightharpoonup> string) \<Rightarrow> string" where
  "substitute_parameters text' params = re_sub (get_or_group0 params) text'"

section \<open>Element trees and converter state\<close>

text \<open>
  An \<^verbatim>\<open>xml.etree.ElementTree.Element\<close>: tag, attribute dictionary (in insertion
  order, keys distinct), text, tail and children.
\<close>

datatype element =
  Element (tag: string) (attrib: "(string \<times> string) list")
    (elem_text: "string option") (elem_tail: "string option") (children: "element list")

text \<open>\<^verbatim>\<open>Element.set\<close>: overwrite in place, or append a new key.\<close>

fun set_attr :: "string \<Rightarrow> string \<Rightarrow> (string \<times> string) list \<Rightarrow> (string \<times> string) list" where
  "set_attr k v [] = [(k, v)]"
| "set_attr k v ((k', v') # kvs) =
     (if k' = k then (k, v) # kvs else (k', v') # set_attr k v kvs)"

text \<open>\<^verbatim>\<open>Element.get(key)\<close> and \<^verbatim>\<open>Element.get(key, default)\<close>\<close>

definition get_attr :: "element \<Rightarrow> string \<Rightarrow> string option" where
  "get_attr e k = map_of (attrib e) k"

definition get_attr_default :: "element \<Rightarrow> string \<Rightarrow> string \<Rightarrow> string" where
  "get_attr_default e k d = (case map_of (attrib e) k of None \<Rightarrow> d | Some v \<Rightarrow> v)"

text \<open>
  The instance state set up by \<^verbatim>\<open>XacroToURDFConverter.__init__\<close>; the field
  \<^verbatim>\<open>includes\<close> is \<open>includes_list\<close> here.
\<close>

record converter =
  properties :: "string \<rightharpoonup> string"
  macros :: "string \<rightharpoonup> element"
  includes_list :: "string list"

definition init :: converter where
  "init = \<lparr>properties = Map.empty, macros = Map.empty, includes_list = []\<rparr>"

text \<open>\<^verbatim>\<open>XacroToURDFConverter._resolve_properties\<close>\<close>

definition resolve_properties :: "converter \<Rightarrow> string \<Rightarrow> string" where
  "resolve_properties self text' = re_sub (get_or_group0 (properties self)) text'"

section \<open>Declaration collector\<close>

text \<open>
  \<^verbatim>\<open>XacroToURDFConverter._collect_xacro_elements\<close>. The source mutates the tree in
  place and the instance; here the updated instance and the updated element are
  returned. \<open>collect_children\<close> is the loop over \<^verbatim>\<open>list(element)\<close> together with the
  final removal of the children put on \<^verbatim>\<open>elements_to_remove\<close>: a removed child is
  left out of the returned list, a kept child is replaced by its collected version.
  The argument \<^verbatim>\<open>base_path\<close> is only passed along and never read, so it is left out.
\<close>

fun collect_xacro_elements :: "converter \<Rightarrow> element \<Rightarrow> converter \<times> element"
  and collect_children :: "converter \<Rightarrow> element list \<Rightarrow> converter \<times> element list" where
  "collect_xacro_elements self (Element t a tx tlx cs) =
     (case collect_children self cs of
        (self', cs') \<Rightarrow> (self', Element t a tx tlx cs'))"
| "collect_children self [] = (self, [])"
| "collect_children self (child # rest) =
     (if get_local_tag (tag child) = ''property'' \<and> is_xacro_element (tag child) then
        collect_children
          (case get_attr child ''name'' of
             None \<Rightarrow> self
           | Some name \<Rightarrow>
               if name = [] then self
               else self\<lparr>properties := (properties self)
                      (name \<mapsto> resolve_properties self (get_attr_default child ''value'' []))\<rparr>)
          rest
      else if get_local_tag (tag child) = ''macro'' \<and> is_xacro_element (tag child) then
        collect_children
          (case get_attr child ''name'' of
             None \<Rightarrow> self
           | Some name \<Rightarrow>
               if name = [] then self
               else self\<lparr>macros := (macros self)(name \<mapsto> child)\<rparr>)
          rest
      else if get_local_tag (tag child) = ''include'' \<and> is_xacro_element (tag child) then
        collect_children
          (if get_attr_default child ''filename'' [] = [] then self
           else self\<lparr>includes_list :=
                  includes_list self @ [get_attr_default child ''filename'' []]\<rparr>)
          rest
      else
        (case collect_xacro_elements self child of
           (self1, child') \<Rightarrow>
             (case collect_children self1 rest of
                (self2, rest') \<Rightarrow> (self2, child' # rest'))))"

section \<open>Expansion engine\<close>

text \<open>\<^verbatim>\<open>XacroToURDFConverter._is_macro_call\<close>\<close>

definition is_macro_call :: "converter \<Rightarrow> element \<Rightarrow> bool" where
  "is_macro_call self element =
     (if macros self (get_local_tag (tag element)) \<noteq> None then True
      else if macros self (tag element) \<noteq> None then True
      else if is_xacro_element (tag element) \<and> macros self (get_local_tag (tag element)) \<noteq> None
        then True
      else False)"

text \<open>The test \<^verbatim>\<open>s and s.strip()\<close> on an optional string.\<close>

definition has_content :: "string option \<Rightarrow> bool" where
  "has_content s = (case s of None \<Rightarrow> False | Some x \<Rightarrow> x \<noteq> [] \<and> strip x \<noteq> [])"

text \<open>
  \<^verbatim>\<open>XacroToURDFConverter._expand_macro_content\<close>. The source declares an optional
  result but returns the new element on every path. The new element's tail is never
  assigned, so it is \<^verbatim>\<open>None\<close>.
\<close>

fun expand_macro_content :: "converter \<Rightarrow> element \<Rightarrow> (string \<rightharpoonup> string) \<Rightarrow> element" where
  "expand_macro_content self (Element t a tx tlx cs) params =
     Element t
       (fold (\<lambda>(attr_name, attr_value) new.
                set_attr attr_name
                  (resolve_properties self (substitute_parameters attr_value params)) new)
          a [])
       (case tx of
          None \<Rightarrow> None
        | Some s \<Rightarrow>
            if has_content (Some s)
            then Some (resolve_properties self (substitute_parameters s params))
            else None)
       None
       (map (\<lambda>child. expand_macro_content self child params) cs)"

text \<open>The list \<^verbatim>\<open>param_names\<close> of \<^verbatim>\<open>_expand_macro_call\<close>.\<close>

definition param_names :: "element \<Rightarrow> string list" where
  "param_names macro_def =
     [strip p. p \<leftarrow> split_ws [] (get_attr_default macro_def ''params'' []), strip p \<noteq> []]"

text \<open>The dictionary \<^verbatim>\<open>param_values\<close> of \<^verbatim>\<open>_expand_macro_call\<close>.\<close>

definition param_values :: "converter \<Rightarrow> element \<Rightarrow> element \<Rightarrow> (string \<rightharpoonup> string)" where
  "param_values self macro_def call_element =
     fold (\<lambda>(attr_name, attr_value) pv.
             if attr_name \<in> set (param_names macro_def)
             then pv(attr_name \<mapsto> resolve_properties self attr_value) else pv)
       (attrib call_element) Map.empty"

text \<open>\<^verbatim>\<open>XacroToURDFConverter._expand_macro_call\<close>\<close>

definition expand_macro_call :: "converter \<Rightarrow> element \<Rightarrow> element list" where
  "expand_macro_call self call_element =
     (case (case macros self (get_local_tag (tag call_element)) of
              Some d \<Rightarrow> Some d
            | None \<Rightarrow> macros self (tag call_element)) of
        None \<Rightarrow> []
      | Some macro_def \<Rightarrow>
          map (\<lambda>macro_child.
                 expand_macro_content self macro_child
                   (param_values self macro_def call_element))
            (children macro_def))"

text \<open>\<^verbatim>\<open>XacroToURDFConverter._expand_xacro_elements\<close>\<close>

fun expand_xacro_elements :: "converter \<Rightarrow> element \<Rightarrow> element" where
  "expand_xacro_elements self (Element t a tx tlx cs) =
     Element t
       (fold (\<lambda>(attr_name, attr_value) new.
                if startswith attr_name ''xmlns'' then
                  (if \<not> contains attr_value ''xacro'' then set_attr attr_name attr_value new
                   else new)
                else set_attr attr_name (resolve_properties self attr_value) new)
          a [])
       (case tx of
          None \<Rightarrow> None
        | Some s \<Rightarrow> if has_content (Some s) then Some (resolve_properties self s) else None)
       (case tlx of
          None \<Rightarrow> None
        | Some s \<Rightarrow> if has_content (Some s) then Some (resolve_properties self s) else None)
       (concat (map (\<lambda>child.
                  if is_macro_call self child then expand_macro_call self child
                  else if startswith (tag child) ''xacro:'' \<and> \<not> is_macro_call self child then []
                  else [expand_xacro_elements self child])
          cs))"

section \<open>Public entry points\<close>

text \<open>The two \<^verbatim>\<open>ValueError\<close>s raised by \<^verbatim>\<open>parse_xacro\<close>.\<close>

datatype error = InvalidXacroXML | RootNotRobot

text \<open>
  \<^verbatim>\<open>XacroToURDFConverter.parse_xacro\<close>. The XML parser \<^verbatim>\<open>ET.fromstring\<close> is a
  library function and a parameter here: \<open>None\<close> is \<^verbatim>\<open>ET.ParseError\<close>. The instance
  is returned with the result, also when an error is raised.
\<close>

definition parse_xacro ::
  "(string \<Rightarrow> element option) \<Rightarrow> converter \<Rightarrow> string \<Rightarrow> converter \<times> (error + element)" where
  "parse_xacro fromstring self xacro_content =
     (case fromstring xacro_content of
        None \<Rightarrow> (self, Inl InvalidXacroXML)
      | Some root \<Rightarrow>
          if tag root \<noteq> ''robot'' then (self, Inl RootNotRobot)
          else (case collect_xacro_elements self root of
                  (self', root') \<Rightarrow> (self', Inr (expand_xacro_elements self' root'))))"

text \<open>
  The tree that \<^verbatim>\<open>XacroToURDFConverter.generate_urdf\<close> hands to the formatter.
\<close>

definition generate_urdf_root :: "string \<Rightarrow> element \<Rightarrow> element" where
  "generate_urdf_root robot_name processed_root =
     Element ''robot'' [(''name'', robot_name)] None None
       (filter (\<lambda>child. \<not> startswith (tag child) ''xacro:'') (children processed_root))"

text \<open>
  \<^verbatim>\<open>XacroToURDFConverter.convert_string\<close>, with the parser and the formatter
  \<^verbatim>\<open>_format_urdf_xml\<close> as parameters.
\<close>

definition convert_string ::
  "(string \<Rightarrow> element option) \<Rightarrow> (element \<Rightarrow> string) \<Rightarrow> converter \<Rightarrow> string \<Rightarrow> string option
     \<Rightarrow> converter \<times> (error + string)" where
  "convert_string fromstring format_urdf_xml self xacro_content robot_name =
     (case parse_xacro fromstring self xacro_content of
        (self', Inl e) \<Rightarrow> (self', Inl e)
      | (self', Inr processed_root) \<Rightarrow>
          (self', Inr (format_urdf_xml
             (generate_urdf_root
                (case robot_name of
                   None \<Rightarrow> get_attr_default processed_root ''name'' ''robot''
                 | Some n \<Rightarrow> n)
                processed_root))))"

section \<open>Tag resolver: properties\<close>

lemma split_first_app:
  "c \<notin> set p \<Longrightarrow> split_first c (p @ c # l) = (p, l)"
  by (induction p) (auto simp: split_first_def)

lemma split_first_fst_char:
  "split_first c (x # s) = (p, l) \<Longrightarrow> x \<noteq> c \<Longrightarrow> \<exists>p'. p = x # p'"
  by (auto simp: split_first_def)

lemma split_first_snd_mem:
  "d \<noteq> c \<Longrightarrow> c \<notin> set l \<Longrightarrow> d \<in> set (snd (split_first c (u @ d # l))) \<or> c \<notin> set u"
  by (induction u) (auto simp: split_first_def)

text \<open>
  C4, as the spec states it: the classifier is true whenever the local name is one
  of \<^verbatim>\<open>property\<close>, \<^verbatim>\<open>macro\<close>, \<^verbatim>\<open>include\<close>, also for a bare name. The code
  returns \<^verbatim>\<open>False\<close> for every tag without \<^verbatim>\<open>}\<close> and \<^verbatim>\<open>:\<close>: the bare tag
  \<^verbatim>\<open>property\<close> has local name \<^verbatim>\<open>property\<close> and is not classified as a template tag.
\<close>

theorem is_xacro_element_bare_keyword:
  "get_local_tag ''property'' \<in> {''property'', ''macro'', ''include''} \<and>
   is_xacro_element ''property'' = False"
  by (simp add: get_local_tag_def is_xacro_element_def)

text \<open>
  C4, amended: a bare name (no \<^verbatim>\<open>}\<close>, no \<^verbatim>\<open>:\<close>) is never a template tag; a tag
  \<^verbatim>\<open>prefix:local\<close> is one exactly when the prefix is \<^verbatim>\<open>xacro\<close> or the local name is
  one of the three keywords; a tag \<^verbatim>\<open>{uri}local\<close> is one exactly when the marker
  \<^verbatim>\<open>xacro\<close> occurs somewhere in the tag (the local name being a keyword is not enough).
\<close>

theorem is_xacro_element_forms:
  "(CHR ''}'' \<notin> set t \<and> CHR '':'' \<notin> set t \<longrightarrow> \<not> is_xacro_element t) \<and>
   (CHR '':'' \<notin> set p \<and> CHR ''}'' \<notin> set (p @ l) \<longrightarrow>
      is_xacro_element (p @ CHR '':'' # l) =
        (p = ''xacro'' \<or> l \<in> {''property'', ''macro'', ''include''})) \<and>
   (CHR ''}'' \<notin> set l' \<and> CHR '':'' \<notin> set l' \<longrightarrow>
      is_xacro_element (CHR ''{'' # u @ CHR ''}'' # l') =
        contains (CHR ''{'' # u @ CHR ''}'' # l') ''xacro'')"
proof (intro conjI impI)
  assume "CHR ''}'' \<notin> set t \<and> CHR '':'' \<notin> set t"
  then show "\<not> is_xacro_element t" by (simp add: is_xacro_element_def)
next
  assume a: "CHR '':'' \<notin> set p \<and> CHR ''}'' \<notin> set (p @ l)"
  then have "split_first CHR '':'' (p @ CHR '':'' # l) = (p, l)"
    by (simp add: split_first_app)
  with a show "is_xacro_element (p @ CHR '':'' # l) =
        (p = ''xacro'' \<or> l \<in> {''property'', ''macro'', ''include''})"
    by (auto simp: is_xacro_element_def)
next
  assume a: "CHR ''}'' \<notin> set l' \<and> CHR '':'' \<notin> set l'"
  let ?t = "CHR ''{'' # u @ CHR ''}'' # l'"
  obtain p q where pq: "split_first CHR '':'' ?t = (p, q)" by fastforce
  have p: "p \<noteq> ''xacro''"
    using split_first_fst_char [OF pq] by auto
  have q: "CHR ''}'' \<in> set q" if "CHR '':'' \<in> set ?t"
  proof -
    from that a have "CHR '':'' \<in> set (CHR ''{'' # u)" by auto
    with split_first_snd_mem [of "CHR ''}''" "CHR '':''" l' "CHR ''{'' # u"] a pq
    show ?thesis by auto
  qed
  then have "CHR '':'' \<in> set ?t \<Longrightarrow> q \<notin> set [''property'', ''macro'', ''include'']"
    by auto
  with p pq show "is_xacro_element ?t = contains ?t ''xacro''"
    by (auto simp: is_xacro_element_def)
qed

theorem is_xacro_element_forms_witness:
  "\<not> is_xacro_element ''link'' \<and>
   is_xacro_element ''xacro:wheel'' \<and>
   is_xacro_element ''ns:macro'' \<and>
   \<not> is_xacro_element ''ns:link'' \<and>
   is_xacro_element ''{http://www.ros.org/wiki/xacro}wheel'' \<and>
   \<not> is_xacro_element ''{http://example.com}property''"
  using is_xacro_element_forms [of "''link''" "''xacro''" "''wheel''" "''wheel''"
      "''http://www.ros.org/wiki/xacro''"]
    is_xacro_element_forms [of "''link''" "''ns''" "''macro''" "''property''"
      "''http://example.com''"]
    is_xacro_element_forms [of "''link''" "''ns''" "''link''" "''property''"
      "''http://example.com''"]
  by simp

section \<open>Substitution: properties\<close>

lemma split_at_brace_app:
  "CHR ''}'' \<notin> set name \<Longrightarrow> split_at_brace (name @ CHR ''}'' # post) = Some (name, post)"
  by (induction name) auto

lemma match_at_reference:
  "name \<noteq> [] \<Longrightarrow> CHR ''}'' \<notin> set name \<Longrightarrow>
   match_at (reference name @ post) = Some (name, post)"
  by (simp add: reference_def split_at_brace_app)

lemma match_at_no_dollar: "c \<noteq> CHR ''$'' \<Longrightarrow> match_at (c # cs) = None"
  by (cases cs) auto

lemma re_sub_no_dollar:
  "CHR ''$'' \<notin> set pre \<Longrightarrow> re_sub repl (pre @ s) = pre @ re_sub repl s"
  by (induction pre) (auto simp: match_at_no_dollar)

lemma re_sub_reference:
  "name \<noteq> [] \<Longrightarrow> CHR ''}'' \<notin> set name \<Longrightarrow>
   re_sub repl (reference name @ post) = repl name @ re_sub repl post"
  using match_at_reference [of name post] by (simp add: reference_def)


section \<open>Evaluation on concrete documents\<close>

text \<open>The namespace part of a tag of the template namespace, as the parser writes it.\<close>

definition xacro_ns :: string where
  "xacro_ns = ''{http://www.ros.org/wiki/xacro}''"

lemmas eval_defs =
  parse_xacro_def get_local_tag_def is_xacro_element_def split_first_def get_attr_def
  get_attr_default_def resolve_properties_def substitute_parameters_def get_or_group0_def
  reference_def is_macro_call_def expand_macro_call_def param_names_def param_values_def
  has_content_def strip_def is_space_def init_def xacro_ns_def

section \<open>Properties with an empty value\<close>

text \<open>
  The resolution the spec describes for C3: the local binding if a scope is given and
  has the name, else the global property value if the name is defined, else the
  reference itself.
\<close>

definition resolve_spec ::
  "(string \<rightharpoonup> string) option \<Rightarrow> (string \<rightharpoonup> string) \<Rightarrow> string \<Rightarrow> string" where
  "resolve_spec local_scope global text' =
     re_sub (\<lambda>name.
        case (case local_scope of None \<Rightarrow> None | Some l \<Rightarrow> l name) of
          Some v \<Rightarrow> v
        | None \<Rightarrow> (case global name of Some v \<Rightarrow> v | None \<Rightarrow> reference name))
       text'"

text \<open>
  A document of the shape that \<^verbatim>\<open>URDFToXacroConverter.generate_xacro\<close> writes, as the
  parser returns it: the property \<^verbatim>\<open>prefix\<close> is the empty string, the property
  \<^verbatim>\<open>base_link_name\<close> is \<^verbatim>\<open>base_link\<close>, the robot macro takes both as parameters and
  names its link \<^verbatim>\<open>${prefix}${base_link_name}\<close>, and the invocation passes
  \<^verbatim>\<open>prefix="${prefix}"\<close> and \<^verbatim>\<open>base_link_name="${base_link_name}"\<close>. A second link
  outside the macro is named \<^verbatim>\<open>${prefix}tool\<close>.
\<close>

definition empty_prefix_document :: element where
  "empty_prefix_document =
     Element ''robot'' [(''name'', ''r'')] None None
       [Element (xacro_ns @ ''property'') [(''name'', ''prefix''), (''value'', [])] None None [],
        Element (xacro_ns @ ''property'')
          [(''name'', ''base_link_name''), (''value'', ''base_link'')] None None [],
        Element (xacro_ns @ ''macro'')
          [(''name'', ''r''), (''params'', ''prefix base_link_name'')] None None
          [Element ''link'' [(''name'', ''${prefix}${base_link_name}'')] None None []],
        Element (xacro_ns @ ''r'')
          [(''prefix'', ''${prefix}''), (''base_link_name'', ''${base_link_name}'')] None None [],
        Element ''link'' [(''name'', ''${prefix}tool'')] None None []]"

text \<open>
  C3 on the code: the property \<^verbatim>\<open>prefix\<close> is defined, with the empty string as its
  value, and no reference to it is substituted: the links are named
  \<^verbatim>\<open>${prefix}base_link\<close> and \<^verbatim>\<open>${prefix}tool\<close>, where the resolution the claim
  describes gives \<^verbatim>\<open>base_link\<close> and \<^verbatim>\<open>tool\<close>. Both callbacks end in
  \<^verbatim>\<open>or match.group(0)\<close>, which sends an empty value back to the reference text.
\<close>

theorem empty_property_value_keeps_reference:
  "snd (parse_xacro (\<lambda>s. Some empty_prefix_document) init ''doc'') =
     Inr (Element ''robot'' [(''name'', ''r'')] None None
            [Element ''link'' [(''name'', ''${prefix}base_link'')] None None [],
             Element ''link'' [(''name'', ''${prefix}tool'')] None None []]) \<and>
   properties (fst (parse_xacro (\<lambda>s. Some empty_prefix_document) init ''doc'')) ''prefix'' =
     Some [] \<and>
   resolve_spec None [''prefix'' \<mapsto> [], ''base_link_name'' \<mapsto> ''base_link'']
     ''${prefix}${base_link_name}'' = ''base_link'' \<and>
   resolve_spec None [''prefix'' \<mapsto> [], ''base_link_name'' \<mapsto> ''base_link'']
     ''${prefix}tool'' = ''tool''"
  by (simp add: empty_prefix_document_def resolve_spec_def eval_defs)

section \<open>Single-pass substitution\<close>

text \<open>
  A document for C6, as \<^verbatim>\<open>ET.fromstring\<close> returns it: property \<^verbatim>\<open>a\<close> is defined as
  \<^verbatim>\<open>${b}\<close> before \<^verbatim>\<open>b\<close> exists, so its stored value keeps the reference; then \<^verbatim>\<open>b\<close>
  is defined as \<^verbatim>\<open>v\<close>; macro \<^verbatim>\<open>m\<close> with parameter \<^verbatim>\<open>p\<close> has the body
  \<^verbatim>\<open><link name="${p}"/>\<close> and is invoked with \<^verbatim>\<open>p="${a}"\<close>.
\<close>

definition two_pass_document :: element where
  "two_pass_document =
     Element ''robot'' [(''name'', ''r'')] None None
       [Element (xacro_ns @ ''property'') [(''name'', ''a''), (''value'', ''${b}'')] None None [],
        Element (xacro_ns @ ''property'') [(''name'', ''b''), (''value'', ''v'')] None None [],
        Element (xacro_ns @ ''macro'') [(''name'', ''m''), (''params'', ''p'')] None None
          [Element ''link'' [(''name'', ''${p}'')] None None []],
        Element (xacro_ns @ ''m'') [(''p'', ''${a}'')] None None []]"

text \<open>
  C6, as the spec states it, fails in macro-body expansion: the parameter \<^verbatim>\<open>p\<close> is bound
  to the text \<^verbatim>\<open>${b}\<close>, and the expansion of the body text \<^verbatim>\<open>${p}\<close> gives \<^verbatim>\<open>v\<close>, not
  the literal \<^verbatim>\<open>${b}\<close>: the reference inside the bound value is resolved against the
  global properties in the same expansion.
\<close>

theorem macro_body_resolves_bound_value:
  "snd (parse_xacro (\<lambda>s. Some two_pass_document) init ''doc'') =
     Inr (Element ''robot'' [(''name'', ''r'')] None None
            [Element ''link'' [(''name'', ''v'')] None None []]) \<and>
   snd (parse_xacro (\<lambda>s. Some two_pass_document) init ''doc'') \<noteq>
     Inr (Element ''robot'' [(''name'', ''r'')] None None
            [Element ''link'' [(''name'', ''${b}'')] None None []])"
  by (simp add: two_pass_document_def eval_defs)

text \<open>
  C6, amended: each call of \<^verbatim>\<open>_resolve_properties\<close> and of \<^verbatim>\<open>_substitute_parameters\<close>
  is single-pass: the replacement value is put into the result as it is, whatever it
  contains, and scanning goes on after the reference. Macro-body expansion runs the
  two in sequence, so the second pass (global resolution) does scan a bound parameter
  value and resolves a reference it contains.
\<close>

theorem substitution_single_pass_per_call:
  assumes "CHR ''$'' \<notin> set pre" and "name \<noteq> []" and "CHR ''}'' \<notin> set name" and "v \<noteq> []"
  shows
    "(properties self name = Some v \<longrightarrow>
        resolve_properties self (pre @ reference name @ post) =
          pre @ v @ resolve_properties self post) \<and>
     (params name = Some v \<longrightarrow>
        substitute_parameters (pre @ reference name @ post) params =
          pre @ v @ substitute_parameters post params) \<and>
     (params name = Some v \<longrightarrow>
        resolve_properties self (substitute_parameters (pre @ reference name @ post) params) =
          pre @ resolve_properties self (v @ substitute_parameters post params))"
  using assms
  by (simp add: resolve_properties_def substitute_parameters_def re_sub_reference
      re_sub_no_dollar get_or_group0_def)

theorem substitution_single_pass_per_call_witness:
  "resolve_properties (init\<lparr>properties := [''x'' \<mapsto> ''${y}'', ''y'' \<mapsto> ''z'']\<rparr>) ''a${x}'' = ''a${y}'' \<and>
   substitute_parameters ''a${x}'' [''x'' \<mapsto> ''${y}''] = ''a${y}'' \<and>
   resolve_properties (init\<lparr>properties := [''x'' \<mapsto> ''${y}'', ''y'' \<mapsto> ''z'']\<rparr>)
     (substitute_parameters ''a${x}'' [''x'' \<mapsto> ''${y}'']) = ''az''"
  using substitution_single_pass_per_call [of "''a''" "''x''" "''${y}''"
      "init\<lparr>properties := [''x'' \<mapsto> ''${y}'', ''y'' \<mapsto> ''z'']\<rparr>" "[]" "[''x'' \<mapsto> ''${y}'']"]
  by (simp add: reference_def resolve_properties_def substitute_parameters_def
      get_or_group0_def init_def)

section \<open>Parsing: errors and instance state\<close>

text \<open>
  C8: parsing raises an error exactly when the text is not well-formed (the parser
  fails) or the root tag is not \<^verbatim>\<open>robot\<close>; the two errors are told apart, and in
  both cases the instance is the one before the call: no property, macro or include
  has been registered.
\<close>

theorem parse_xacro_fails_fast:
  "((\<exists>e. snd (parse_xacro fromstring self xacro_content) = Inl e) \<longleftrightarrow>
      (fromstring xacro_content = None \<or>
       (\<exists>root. fromstring xacro_content = Some root \<and> tag root \<noteq> ''robot''))) \<and>
   (snd (parse_xacro fromstring self xacro_content) = Inl InvalidXacroXML \<longleftrightarrow>
      fromstring xacro_content = None) \<and>
   (snd (parse_xacro fromstring self xacro_content) = Inl RootNotRobot \<longleftrightarrow>
      (\<exists>root. fromstring xacro_content = Some root \<and> tag root \<noteq> ''robot'')) \<and>
   (\<forall>e. snd (parse_xacro fromstring self xacro_content) = Inl e \<longrightarrow>
      fst (parse_xacro fromstring self xacro_content) = self)"
  by (auto simp: parse_xacro_def split: option.splits prod.splits)

theorem parse_xacro_fails_fast_witness:
  "parse_xacro (\<lambda>s. None) (init\<lparr>includes_list := [''a.xacro'']\<rparr>) ''<robot'' =
     (init\<lparr>includes_list := [''a.xacro'']\<rparr>, Inl InvalidXacroXML) \<and>
   parse_xacro (\<lambda>s. Some (Element ''link'' [] None None [])) init ''<link/>'' =
     (init, Inl RootNotRobot)"
  using
    parse_xacro_fails_fast [of "\<lambda>s. None" "init\<lparr>includes_list := [''a.xacro'']\<rparr>" "''<robot''"]
    parse_xacro_fails_fast [of "\<lambda>s. Some (Element ''link'' [] None None [])" init "''<link/>''"]
  by (simp add: parse_xacro_def)

section \<open>Instance state across conversions\<close>

text \<open>Collection only adds to the instance: no entry is ever removed.\<close>

definition extends :: "converter \<Rightarrow> converter \<Rightarrow> bool" where
  "extends self self' \<longleftrightarrow>
     dom (properties self) \<subseteq> dom (properties self') \<and>
     dom (macros self) \<subseteq> dom (macros self') \<and>
     (\<exists>new. includes_list self' = includes_list self @ new)"

lemma extends_refl: "extends self self"
  by (simp add: extends_def)

lemma extends_trans:
  assumes "extends a b" and "extends b c"
  shows "extends a c"
proof -
  have "dom (properties a) \<subseteq> dom (properties c)"
    using assms unfolding extends_def by (blast intro: order_trans)
  moreover have "dom (macros a) \<subseteq> dom (macros c)"
    using assms unfolding extends_def by (blast intro: order_trans)
  moreover have "\<exists>new. includes_list c = includes_list a @ new"
    using assms unfolding extends_def by auto
  ultimately show ?thesis by (simp add: extends_def)
qed

lemma collect_extends:
  "extends self (fst (collect_xacro_elements self e))"
  "extends self (fst (collect_children self es))"
proof (induction self e and self es rule: collect_xacro_elements_collect_children.induct)
  case (1 self t a tx tlx cs)
  then show ?case by (simp add: case_prod_beta)
next
  case (2 self)
  show ?case by (simp add: extends_refl)
next
  case (3 self child rest)
  show ?case
  proof (cases "get_local_tag (tag child) = ''property'' \<and> is_xacro_element (tag child)")
    case True
    let ?s = "case get_attr child ''name'' of
             None \<Rightarrow> self
           | Some name \<Rightarrow>
               if name = [] then self
               else self\<lparr>properties := (properties self)
                      (name \<mapsto> resolve_properties self (get_attr_default child ''value'' []))\<rparr>"
    have "extends self ?s"
      by (auto simp: extends_def split: option.splits)
    moreover have "extends ?s (fst (collect_children ?s rest))"
      using "3.IH"(1) True by simp
    ultimately show ?thesis using True by (simp add: extends_trans)
  next
    case np: False
    show ?thesis
    proof (cases "get_local_tag (tag child) = ''macro'' \<and> is_xacro_element (tag child)")
      case True
      let ?s = "case get_attr child ''name'' of
             None \<Rightarrow> self
           | Some name \<Rightarrow>
               if name = [] then self
               else self\<lparr>macros := (macros self)(name \<mapsto> child)\<rparr>"
      have "extends self ?s"
        by (auto simp: extends_def split: option.splits)
      moreover have "extends ?s (fst (collect_children ?s rest))"
        using "3.IH"(2) np True by simp
      ultimately show ?thesis using np True by (auto intro: extends_trans)
    next
      case nm: False
      show ?thesis
      proof (cases "get_local_tag (tag child) = ''include'' \<and> is_xacro_element (tag child)")
        case True
        let ?s = "if get_attr_default child ''filename'' [] = [] then self
           else self\<lparr>includes_list :=
                  includes_list self @ [get_attr_default child ''filename'' []]\<rparr>"
        have "extends self ?s"
          by (auto simp: extends_def)
        moreover have "extends ?s (fst (collect_children ?s rest))"
          using "3.IH"(3) np nm True by simp
        ultimately show ?thesis using np nm True by (auto intro: extends_trans)
      next
        case ni: False
        obtain s1 c' where c: "collect_xacro_elements self child = (s1, c')" by fastforce
        obtain s2 r' where r: "collect_children s1 rest = (s2, r')" by fastforce
        have "extends self s1" using "3.IH"(4) np nm ni c by simp
        moreover have "extends s1 s2" using "3.IH"(5) [OF np nm ni c [symmetric]] r by simp
        ultimately show ?thesis using np nm ni c r by (auto intro: extends_trans)
      qed
    qed
  qed
qed

text \<open>
  Two documents converted one after the other on the same instance: the first only
  declares a property and a macro, the second uses both and declares nothing.
\<close>

definition first_document :: element where
  "first_document =
     Element ''robot'' [(''name'', ''one'')] None None
       [Element (xacro_ns @ ''property'') [(''name'', ''x''), (''value'', ''1'')] None None [],
        Element (xacro_ns @ ''macro'') [(''name'', ''wheel'')] None None
          [Element ''link'' [(''name'', ''wheel_link'')] None None []]]"

definition second_document :: element where
  "second_document =
     Element ''robot'' [(''name'', ''two'')] None None
       [Element ''joint'' [(''name'', ''${x}'')] None None [],
        Element ''wheel'' [] None None []]"

definition two_documents :: "string \<Rightarrow> element option" where
  "two_documents s =
     (if s = ''first'' then Some first_document
      else if s = ''second'' then Some second_document
      else None)"

text \<open>
  C10: a conversion never removes an entry of the instance (properties and macros
  keep their names, the include list is only appended to), \<^verbatim>\<open>convert_string\<close> leaves
  the instance as \<^verbatim>\<open>parse_xacro\<close> does, and the entries of an earlier conversion change
  the result of a later one: the second document converted on a fresh instance keeps
  \<^verbatim>\<open>${x}\<close> and the element \<^verbatim>\<open>wheel\<close>, converted after the first document it gets the
  first document's property value and macro body.
\<close>

theorem conversion_state_persists:
  "extends self (fst (parse_xacro fromstring self xacro_content)) \<and>
   fst (convert_string fromstring format_urdf_xml self xacro_content robot_name) =
     fst (parse_xacro fromstring self xacro_content) \<and>
   snd (convert_string two_documents format_urdf_xml init ''second'' None) =
     Inr (format_urdf_xml
       (Element ''robot'' [(''name'', ''two'')] None None
          [Element ''joint'' [(''name'', ''${x}'')] None None [],
           Element ''wheel'' [] None None []])) \<and>
   snd (convert_string two_documents format_urdf_xml
          (fst (convert_string two_documents format_urdf_xml init ''first'' None))
          ''second'' None) =
     Inr (format_urdf_xml
       (Element ''robot'' [(''name'', ''two'')] None None
          [Element ''joint'' [(''name'', ''1'')] None None [],
           Element ''link'' [(''name'', ''wheel_link'')] None None []]))"
proof (intro conjI)
  show "extends self (fst (parse_xacro fromstring self xacro_content))"
  proof (cases "fromstring xacro_content")
    case None
    then show ?thesis by (simp add: parse_xacro_def extends_refl)
  next
    case (Some root)
    show ?thesis
      using Some collect_extends(1) [of self root]
      by (simp add: parse_xacro_def extends_refl case_prod_beta)
  qed
  show "fst (convert_string fromstring format_urdf_xml self xacro_content robot_name) =
     fst (parse_xacro fromstring self xacro_content)"
    by (simp add: convert_string_def split: prod.splits sum.splits)
  show "snd (convert_string two_documents format_urdf_xml init ''second'' None) =
     Inr (format_urdf_xml
       (Element ''robot'' [(''name'', ''two'')] None None
          [Element ''joint'' [(''name'', ''${x}'')] None None [],
           Element ''wheel'' [] None None []]))"
    by (simp add: convert_string_def generate_urdf_root_def two_documents_def
        second_document_def eval_defs)
  show "snd (convert_string two_documents format_urdf_xml
          (fst (convert_string two_documents format_urdf_xml init ''first'' None))
          ''second'' None) =
     Inr (format_urdf_xml
       (Element ''robot'' [(''name'', ''two'')] None None
          [Element ''joint'' [(''name'', ''1'')] None None [],
           Element ''link'' [(''name'', ''wheel_link'')] None None []]))"
    by (simp add: convert_string_def generate_urdf_root_def two_documents_def
        first_document_def second_document_def eval_defs)
qed

section \<open>Declaration removal\<close>

text \<open>
  A declaration is a tag that the collector takes out of the tree: a template tag
  whose local name is \<^verbatim>\<open>property\<close>, \<^verbatim>\<open>macro\<close> or \<^verbatim>\<open>include\<close>.
\<close>

definition is_declaration :: "string \<Rightarrow> bool" where
  "is_declaration t \<longleftrightarrow>
     is_xacro_element t \<and> get_local_tag t \<in> {''property'', ''macro'', ''include''}"

text \<open>All nodes of a tree, the root first.\<close>

fun nodes :: "element \<Rightarrow> element list" where
  "nodes (Element t a tx tlx cs) = Element t a tx tlx cs # concat (map nodes cs)"

text \<open>
  What the spec asks of the collected tree: at every node the declaration children
  are left out; the other children stay, in their order, and nothing else changes.
\<close>

fun remove_declarations_spec :: "element \<Rightarrow> element" where
  "remove_declarations_spec (Element t a tx tlx cs) =
     Element t a tx tlx
       (map remove_declarations_spec (filter (\<lambda>c. \<not> is_declaration (tag c)) cs))"

lemma collect_removes_declarations:
  "snd (collect_xacro_elements self e) = remove_declarations_spec e"
  "snd (collect_children self es) =
     map remove_declarations_spec (filter (\<lambda>c. \<not> is_declaration (tag c)) es)"
proof (induction self e and self es rule: collect_xacro_elements_collect_children.induct)
  case (1 self t a tx tlx cs)
  then show ?case by (simp add: case_prod_beta)
next
  case (2 self)
  show ?case by simp
next
  case (3 self child rest)
  show ?case
  proof (cases "is_declaration (tag child)")
    case True
    then show ?thesis
      using "3.IH"(1,2,3) by (auto simp: is_declaration_def)
  next
    case False
    then have n: "\<not> (get_local_tag (tag child) = ''property'' \<and> is_xacro_element (tag child))"
      "\<not> (get_local_tag (tag child) = ''macro'' \<and> is_xacro_element (tag child))"
      "\<not> (get_local_tag (tag child) = ''include'' \<and> is_xacro_element (tag child))"
      by (auto simp: is_declaration_def)
    obtain s1 c' where c: "collect_xacro_elements self child = (s1, c')" by fastforce
    have "c' = remove_declarations_spec child"
      using "3.IH"(4) [OF n] c by simp
    moreover have "snd (collect_children s1 rest) =
        map remove_declarations_spec (filter (\<lambda>c. \<not> is_declaration (tag c)) rest)"
      using "3.IH"(5) [OF n c [symmetric]] by simp
    moreover have "collect_children self (child # rest) =
        (fst (collect_children s1 rest), c' # snd (collect_children s1 rest))"
      by (subst collect_children.simps) (simp only: n if_False c case_prod_beta fst_conv snd_conv)
    ultimately show ?thesis
      using False by simp
  qed
qed

lemma nodes_remove_declarations_spec:
  "\<not> is_declaration (tag e) \<Longrightarrow>
   \<forall>n \<in> set (nodes (remove_declarations_spec e)). \<not> is_declaration (tag n)"
  by (induction e) auto

lemma nodes_below_remove_declarations_spec:
  "\<forall>n \<in> set (concat (map nodes (children (remove_declarations_spec e)))).
     \<not> is_declaration (tag n)"
  using nodes_remove_declarations_spec by (cases e) auto

text \<open>
  C5: after the collection pass no node below the root is a declaration, and the
  tree is the input tree with the declaration children left out at every level, the
  remaining siblings in their order. The root is the node the pass is called on and
  is kept as it is; when it is not a declaration itself, the whole tree has no
  declaration node. That is so at every call the code makes: \<^verbatim>\<open>parse_xacro\<close> calls
  the pass on a root tagged \<^verbatim>\<open>robot\<close>, and the pass calls itself only on children
  that are not declarations.
\<close>

theorem collect_removes_every_declaration:
  "(\<forall>n \<in> set (concat (map nodes (children (snd (collect_xacro_elements self e))))).
      \<not> is_declaration (tag n)) \<and>
   (\<not> is_declaration (tag e) \<longrightarrow>
      (\<forall>n \<in> set (nodes (snd (collect_xacro_elements self e))). \<not> is_declaration (tag n))) \<and>
   snd (collect_xacro_elements self e) = remove_declarations_spec e"
  using nodes_remove_declarations_spec [of e] nodes_below_remove_declarations_spec [of e]
  by (simp add: collect_removes_declarations(1))

definition declarations_document :: element where
  "declarations_document =
     Element ''robot'' [(''name'', ''r'')] None None
       [Element (xacro_ns @ ''property'') [(''name'', ''x''), (''value'', ''1'')] None None [],
        Element ''link'' [(''name'', ''a'')] None None
          [Element ''xacro:include'' [(''filename'', ''f.xacro'')] None None [],
           Element ''visual'' [] None None [],
           Element (xacro_ns @ ''macro'') [] None None [Element ''x'' [] None None []]],
        Element ''ns:macro'' [(''name'', ''m'')] None None [],
        Element ''joint'' [(''name'', ''b'')] None None []]"

theorem collect_removes_every_declaration_witness:
  "\<not> is_declaration (tag declarations_document) \<and>
   list_all (\<lambda>n. \<not> is_declaration (tag n))
     (nodes (snd (collect_xacro_elements init declarations_document))) \<and>
   snd (collect_xacro_elements init declarations_document) =
     Element ''robot'' [(''name'', ''r'')] None None
       [Element ''link'' [(''name'', ''a'')] None None [Element ''visual'' [] None None []],
        Element ''joint'' [(''name'', ''b'')] None None []]"
proof -
  have r: "\<not> is_declaration (tag declarations_document)"
    by (simp add: declarations_document_def is_declaration_def eval_defs)
  have "remove_declarations_spec declarations_document =
     Element ''robot'' [(''name'', ''r'')] None None
       [Element ''link'' [(''name'', ''a'')] None None [Element ''visual'' [] None None []],
        Element ''joint'' [(''name'', ''b'')] None None []]"
    by (simp add: declarations_document_def is_declaration_def eval_defs)
  with r collect_removes_every_declaration [of init declarations_document] show ?thesis
    by (simp add: list_all_iff)
qed

section \<open>Attribute dictionaries and text tests\<close>

lemma set_attr_fresh:
  "k \<notin> fst ` set kvs \<Longrightarrow> set_attr k v kvs = kvs @ [(k, v)]"
  by (induction kvs) auto

text \<open>
  Copying a dictionary key by key with \<^verbatim>\<open>Element.set\<close> into a new element gives the
  copied items in the same order: the keys of a dictionary are distinct.
\<close>

lemma fold_set_attr:
  "distinct (map fst a) \<Longrightarrow> fst ` set a \<inter> fst ` set acc = {} \<Longrightarrow>
   fold (\<lambda>(k, v) new. if P k v then set_attr k (g k v) new else new) a acc =
     acc @ map (\<lambda>(k, v). (k, g k v)) (filter (\<lambda>(k, v). P k v) a)"
proof (induction a arbitrary: acc)
  case Nil
  show ?case by simp
next
  case (Cons kv a)
  obtain k v where kv: "kv = (k, v)" by (cases kv)
  show ?case
  proof (cases "P k v")
    case True
    have fresh: "k \<notin> fst ` set acc" using Cons.prems kv by auto
    have "fst ` set a \<inter> fst ` set (acc @ [(k, g k v)]) = {}"
      using Cons.prems kv by (auto simp: image_iff)
    with Cons.IH [of "acc @ [(k, g k v)]"] Cons.prems True kv fresh show ?thesis
      by (simp add: set_attr_fresh)
  next
    case False
    have "fst ` set a \<inter> fst ` set acc = {}" using Cons.prems by auto
    with Cons.IH [of acc] Cons.prems False kv show ?thesis by simp
  qed
qed

lemma strip_nonempty: "strip s \<noteq> [] \<longleftrightarrow> (\<exists>c \<in> set s. \<not> is_space c)"
proof -
  have d: "dropWhile is_space xs \<noteq> [] \<longleftrightarrow> (\<exists>c \<in> set xs. \<not> is_space c)" for xs
    by (simp add: dropWhile_eq_Nil_conv)
  have "set (dropWhile is_space s) \<subseteq> set s"
    by (auto dest: set_dropWhileD)
  moreover have "\<exists>c \<in> set (dropWhile is_space s). \<not> is_space c" if "\<exists>c \<in> set s. \<not> is_space c"
  proof -
    from that have "dropWhile is_space s \<noteq> []" by (simp add: d)
    then have "hd (dropWhile is_space s) \<in> set (dropWhile is_space s)"
      and "\<not> is_space (hd (dropWhile is_space s))"
      by (simp_all add: hd_dropWhile)
    then show ?thesis by blast
  qed
  ultimately have "(\<exists>c \<in> set (dropWhile is_space s). \<not> is_space c) \<longleftrightarrow>
      (\<exists>c \<in> set s. \<not> is_space c)"
    by blast
  then show ?thesis
    using d [of "rev (dropWhile is_space s)"] by (simp add: strip_def)
qed

lemma has_content_iff:
  "has_content s \<longleftrightarrow> (\<exists>x. s = Some x \<and> (\<exists>c \<in> set x. \<not> is_space c))"
  by (auto simp: has_content_def strip_nonempty split: option.splits)

section \<open>Macro invocation\<close>
























section \<open>Expansion of an already expanded tree\<close>

text \<open>The names of the references that \<open>re_sub\<close> finds in a text, in order.\<close>

function references :: "string \<Rightarrow> string list" where
  "references [] = []"
| "references (c # cs) =
     (case match_at (c # cs) of
        Some (name, rest) \<Rightarrow> name # references rest
      | None \<Rightarrow> references cs)"
  by pat_completeness auto
termination
  by (relation "measure length") (auto dest: match_at_length)

text \<open>No reference of the text names a property that resolves (defined and not empty).\<close>

definition no_resolving_reference :: "converter \<Rightarrow> string \<Rightarrow> bool" where
  "no_resolving_reference self s =
     list_all (\<lambda>n. properties self n = None \<or> properties self n = Some []) (references s)"

text \<open>
  A tree with nothing left to expand under the instance \<open>self\<close>: no child is a macro
  invocation or has a tag starting with \<^verbatim>\<open>xacro:\<close>, no \<^verbatim>\<open>xmlns\<close> attribute mentions
  \<^verbatim>\<open>xacro\<close>, and no attribute value, text or tail has a reference that resolves.
\<close>

fun already_expanded :: "converter \<Rightarrow> element \<Rightarrow> bool" where
  "already_expanded self (Element t a tx tlx cs) =
     (distinct (map fst a) \<and>
      list_all (\<lambda>(k, v). if startswith k ''xmlns'' then \<not> contains v ''xacro''
                         else no_resolving_reference self v) a \<and>
      (case tx of None \<Rightarrow> True | Some s \<Rightarrow> no_resolving_reference self s) \<and>
      (case tlx of None \<Rightarrow> True | Some s \<Rightarrow> no_resolving_reference self s) \<and>
      list_all (\<lambda>c. \<not> is_macro_call self c \<and> \<not> startswith (tag c) ''xacro:'' \<and>
                    already_expanded self c) cs)"

text \<open>The tree with every empty or whitespace-only text and tail made absent.\<close>

fun drop_blank_text :: "element \<Rightarrow> element" where
  "drop_blank_text (Element t a tx tlx cs) =
     Element t a (if has_content tx then tx else None) (if has_content tlx then tlx else None)
       (map drop_blank_text cs)"

lemma split_at_brace_Some:
  "split_at_brace s = Some (name, rest) \<Longrightarrow> s = name @ CHR ''}'' # rest"
  by (induction s arbitrary: name) (auto split: if_splits option.splits)

lemma match_at_Some:
  "match_at s = Some (name, rest) \<Longrightarrow> s = reference name @ rest"
  by (cases s rule: match_at.cases)
     (auto simp: reference_def split: if_splits option.splits dest: split_at_brace_Some)

lemma re_sub_identity:
  "list_all (\<lambda>n. repl n = reference n) (references s) \<Longrightarrow> re_sub repl s = s"
proof (induction repl s rule: re_sub.induct)
  case (1 repl)
  show ?case by simp
next
  case (2 repl c cs)
  show ?case
  proof (cases "match_at (c # cs)")
    case None
    with 2 show ?thesis by simp
  next
    case (Some m)
    obtain name rest where m: "m = (name, rest)" by (cases m)
    have shape: "c # cs = reference name @ rest"
      using Some m by (simp add: match_at_Some)
    have "repl name = reference name" "re_sub repl rest = rest"
      using 2 Some m by simp_all
    moreover have "re_sub repl (c # cs) = repl name @ re_sub repl rest"
      using Some m by simp
    ultimately show ?thesis by (simp only: shape)
  qed
qed

lemma resolve_properties_identity:
  "no_resolving_reference self s \<Longrightarrow> resolve_properties self s = s"
  unfolding no_resolving_reference_def resolve_properties_def
  by (rule re_sub_identity) (auto simp: list_all_iff get_or_group0_def)

lemma copy_attributes_identity:
  assumes "distinct (map fst a)"
    and "list_all (\<lambda>(k, v). if startswith k ''xmlns'' then \<not> contains v ''xacro''
                         else no_resolving_reference self v) a"
  shows "fold (\<lambda>(attr_name, attr_value) new.
                if startswith attr_name ''xmlns'' then
                  (if \<not> contains attr_value ''xacro'' then set_attr attr_name attr_value new
                   else new)
                else set_attr attr_name (resolve_properties self attr_value) new)
          a [] = a"
proof -
  let ?P = "\<lambda>k v. startswith k ''xmlns'' \<longrightarrow> \<not> contains v ''xacro''"
  let ?g = "\<lambda>k v. if startswith k ''xmlns'' then v else resolve_properties self v"
  have "(\<lambda>(attr_name, attr_value) new.
                if startswith attr_name ''xmlns'' then
                  (if \<not> contains attr_value ''xacro'' then set_attr attr_name attr_value new
                   else new)
                else set_attr attr_name (resolve_properties self attr_value) new) =
        (\<lambda>(k, v) new. if ?P k v then set_attr k (?g k v) new else new)"
    by (auto simp: fun_eq_iff)
  then have "fold (\<lambda>(attr_name, attr_value) new.
                if startswith attr_name ''xmlns'' then
                  (if \<not> contains attr_value ''xacro'' then set_attr attr_name attr_value new
                   else new)
                else set_attr attr_name (resolve_properties self attr_value) new) a [] =
       map (\<lambda>(k, v). (k, ?g k v)) (filter (\<lambda>(k, v). ?P k v) a)"
    using fold_set_attr [of a "[]" ?P ?g] assms(1) by simp
  also have "filter (\<lambda>(k, v). ?P k v) a = a"
    using assms(2) by (auto simp: list_all_iff filter_id_conv)
  also have "map (\<lambda>(k, v). (k, ?g k v)) a = a"
    using assms(2) by (intro map_idI) (auto simp: list_all_iff resolve_properties_identity)
  finally show ?thesis .
qed

lemma expand_plain_children:
  "list_all (\<lambda>c. \<not> is_macro_call self c \<and> \<not> startswith (tag c) ''xacro:'') cs \<Longrightarrow>
   concat (map (\<lambda>child.
        if is_macro_call self child then expand_macro_call self child
        else if startswith (tag child) ''xacro:'' \<and> \<not> is_macro_call self child then []
        else [expand_xacro_elements self child]) cs) =
     map (expand_xacro_elements self) cs"
  by (induction cs) auto

lemma resolve_text_identity:
  "(case tx of None \<Rightarrow> True | Some s \<Rightarrow> no_resolving_reference self s) \<Longrightarrow>
   (case tx of
      None \<Rightarrow> None
    | Some s \<Rightarrow> if has_content (Some s) then Some (resolve_properties self s) else None) =
   (if has_content tx then tx else None)"
  by (cases tx) (auto simp: resolve_properties_identity has_content_def)

text \<open>
  A document as the parser returns it for indented markup: the text of the root and
  the tail of its child are the line breaks and the indentation.
\<close>

definition indented_document :: element where
  "indented_document =
     Element ''robot'' [(''name'', ''r'')] (Some [CHR 0x0A, CHR '' '', CHR '' '']) None
       [Element ''link'' [(''name'', ''base'')] None (Some [CHR 0x0A]) []]"

text \<open>
  C9, as the spec states it, fails on a tree with whitespace-only text: the tree has
  no declaration, no invocation and no reference, yet the expansion is not the same
  tree, because text and tail that are empty after \<^verbatim>\<open>strip()\<close> are not copied.
\<close>

theorem expand_drops_blank_text:
  "already_expanded init indented_document \<and>
   list_all (\<lambda>n. \<not> is_declaration (tag n)) (nodes indented_document) \<and>
   expand_xacro_elements init indented_document \<noteq> indented_document \<and>
   expand_xacro_elements init indented_document =
     Element ''robot'' [(''name'', ''r'')] None None
       [Element ''link'' [(''name'', ''base'')] None None []]"
  by (simp add: indented_document_def no_resolving_reference_def is_declaration_def eval_defs)

text \<open>
  C9, amended: on a tree with nothing left to expand (no child that is a macro
  invocation or whose tag starts with \<^verbatim>\<open>xacro:\<close>, no \<^verbatim>\<open>xmlns\<close> attribute mentioning
  \<^verbatim>\<open>xacro\<close>, no reference that resolves) the expansion returns the same tree (tags,
  attributes in their order, children in their order, text and tail) except that
  every empty or whitespace-only text and tail is absent in the result. Whitespace
  is what \<^verbatim>\<open>strip()\<close> removes, the no-break space U+00A0 included.
\<close>

theorem expand_already_expanded:
  "already_expanded self e \<Longrightarrow> expand_xacro_elements self e = drop_blank_text e"
proof (induction e)
  case (Element t a tx tlx cs)
  have plain: "list_all (\<lambda>c. \<not> is_macro_call self c \<and> \<not> startswith (tag c) ''xacro:'') cs"
    using Element.prems by (auto simp: list_all_iff)
  have "map (expand_xacro_elements self) cs = map drop_blank_text cs"
    using Element.IH Element.prems by (intro map_cong) (auto simp: list_all_iff)
  then show ?case
    using Element.prems
    by (simp add: copy_attributes_identity expand_plain_children [OF plain]
        resolve_text_identity)
qed

theorem expand_already_expanded_witness:
  "expand_xacro_elements (init\<lparr>properties := [''x'' \<mapsto> ''1'']\<rparr>)
     (Element ''robot'' [(''name'', ''r''), (''xmlns:foo'', ''http://foo'')] (Some [CHR 0x0A]) None
        [Element ''link'' [(''name'', ''${undefined}'')] (Some ''text'') (Some [CHR 0xA0, CHR '' '']) []]) =
     Element ''robot'' [(''name'', ''r''), (''xmlns:foo'', ''http://foo'')] None None
        [Element ''link'' [(''name'', ''${undefined}'')] (Some ''text'') None []]"
proof -
  have "already_expanded (init\<lparr>properties := [''x'' \<mapsto> ''1'']\<rparr>)
     (Element ''robot'' [(''name'', ''r''), (''xmlns:foo'', ''http://foo'')] (Some [CHR 0x0A]) None
        [Element ''link'' [(''name'', ''${undefined}'')] (Some ''text'') (Some [CHR 0xA0, CHR '' '']) []])"
    by (simp add: no_resolving_reference_def eval_defs)
  from expand_already_expanded [OF this] show ?thesis
    by (simp add: eval_defs)
qed

section \<open>Invocations inside macro bodies and unknown invocations\<close>

text \<open>
  A document with two macros, as the parser returns it: \<^verbatim>\<open>inner\<close> with parameter
  \<^verbatim>\<open>p\<close> and body \<^verbatim>\<open><leaf v="${p}"/>\<close>; \<^verbatim>\<open>outer\<close> with parameter \<^verbatim>\<open>q\<close> and body
  \<^verbatim>\<open><link name="${q}"><xacro:inner p="${q}"/></link>\<close>; and one invocation
  \<^verbatim>\<open><xacro:outer q="a"/>\<close>.
\<close>

definition nested_document :: element where
  "nested_document =
     Element ''robot'' [(''name'', ''r'')] None None
       [Element (xacro_ns @ ''macro'') [(''name'', ''inner''), (''params'', ''p'')] None None
          [Element ''leaf'' [(''v'', ''${p}'')] None None []],
        Element (xacro_ns @ ''macro'') [(''name'', ''outer''), (''params'', ''q'')] None None
          [Element ''link'' [(''name'', ''${q}'')] None None
             [Element (xacro_ns @ ''inner'') [(''p'', ''${q}'')] None None []]],
        Element (xacro_ns @ ''outer'') [(''q'', ''a'')] None None []]"

text \<open>
  C1 on the code: the invocation of \<^verbatim>\<open>inner\<close> inside the body of \<^verbatim>\<open>outer\<close> is a
  registered macro invocation, and the output still holds it as an element (with its
  parameter substituted) instead of the expansion \<^verbatim>\<open><leaf v="a"/>\<close>:
  \<^verbatim>\<open>_expand_macro_content\<close> copies the body and never looks for invocations.
\<close>

theorem nested_invocation_is_copied:
  "snd (parse_xacro (\<lambda>s. Some nested_document) init ''doc'') =
     Inr (Element ''robot'' [(''name'', ''r'')] None None
            [Element ''link'' [(''name'', ''a'')] None None
               [Element (xacro_ns @ ''inner'') [(''p'', ''a'')] None None []]]) \<and>
   is_macro_call (fst (parse_xacro (\<lambda>s. Some nested_document) init ''doc''))
     (Element (xacro_ns @ ''inner'') [(''p'', ''a'')] None None []) \<and>
   expand_macro_call (fst (parse_xacro (\<lambda>s. Some nested_document) init ''doc''))
     (Element (xacro_ns @ ''inner'') [(''p'', ''a'')] None None []) =
     [Element ''leaf'' [(''v'', ''a'')] None None []]"
  by (simp add: nested_document_def eval_defs)

text \<open>
  A document with an invocation of a macro that is never defined, between two
  ordinary elements, as the parser returns it for
  \<^verbatim>\<open><a/><xacro:undefined_macro/><b/>\<close>.
\<close>

definition unknown_macro_document :: element where
  "unknown_macro_document =
     Element ''robot'' [(''name'', ''r'')] None None
       [Element ''a'' [] None None [],
        Element (xacro_ns @ ''undefined_macro'') [] None None [],
        Element ''b'' [] None None []]"

text \<open>
  C7 on the code: the unknown invocation is a template tag and not a macro call, and
  it is still in the output, between its siblings. The test that drops such
  elements is \<^verbatim>\<open>child.tag.startswith("xacro:")\<close>, and the parser writes the tag as
  \<^verbatim>\<open>{http://www.ros.org/wiki/xacro}undefined_macro\<close>; the same element with the
  literal tag \<^verbatim>\<open>xacro:undefined_macro\<close> is dropped.
\<close>

theorem unknown_invocation_is_kept:
  "is_xacro_element (xacro_ns @ ''undefined_macro'') \<and>
   snd (parse_xacro (\<lambda>s. Some unknown_macro_document) init ''doc'') =
     Inr (Element ''robot'' [(''name'', ''r'')] None None
            [Element ''a'' [] None None [],
             Element (xacro_ns @ ''undefined_macro'') [] None None [],
             Element ''b'' [] None None []]) \<and>
   expand_xacro_elements init
     (Element ''robot'' [(''name'', ''r'')] None None
        [Element ''a'' [] None None [],
         Element ''xacro:undefined_macro'' [] None None [],
         Element ''b'' [] None None []]) =
     Element ''robot'' [(''name'', ''r'')] None None
       [Element ''a'' [] None None [], Element ''b'' [] None None []]"
  by (simp add: unknown_macro_document_def eval_defs)

end
